theory Spec2Isabelle
  imports Main "HOL-Library.AList"
begin

section \<open>Errors\<close>

text \<open>
  Every error the client manager creates or receives is an API status error: a reason and a
  message. \<open>Error\<close> is the text that Go's \<open>err.Error()\<close> gives.
\<close>

datatype reason = BadRequest | Unauthorized | Invalid | Forbidden | Unknown

datatype error = StatusError (Reason: reason) (Error: string)

text \<open>
  Modelled from the spec: the package \<open>errors\<close> of the backend is not among the sources. Its
  constructors build the conditions that section 7 of the specification names (BadRequest for
  a null request handle, Unauthorized for a missing credential, Invalid for missing connection
  parameters), each with the message it is given.
\<close>

definition NewBadRequest :: "string \<Rightarrow> error" where
  "NewBadRequest msg = StatusError BadRequest msg"

definition NewUnauthorized :: "string \<Rightarrow> error" where
  "NewUnauthorized msg = StatusError Unauthorized msg"

definition NewInvalid :: "string \<Rightarrow> error" where
  "NewInvalid msg = StatusError Invalid msg"

text \<open>
  Modelled from the spec: the fixed login-required message is a constant of the same missing
  package; no proof depends on its text.
\<close>

definition MsgLoginUnauthorizedError :: string where
  "MsgLoginUnauthorizedError = ''MSG_LOGIN_UNAUTHORIZED_ERROR''"

text \<open>\<open>k8serrors.IsForbidden\<close>: the error is a status error whose reason is Forbidden.\<close>

definition IsForbidden :: "error \<Rightarrow> bool" where
  "IsForbidden err = (Reason err = Forbidden)"

section \<open>Strings\<close>

definition HasPrefix :: "string \<Rightarrow> string \<Rightarrow> bool" where
  "HasPrefix s p = (take (length p) s = p)"

definition TrimPrefix :: "string \<Rightarrow> string \<Rightarrow> string" where
  "TrimPrefix s p = (if HasPrefix s p then drop (length p) s else s)"

section \<open>Requests and their headers\<close>

text \<open>
  A header set is Go's \<open>map[string][]string\<close>: an association list whose keys are distinct,
  in the order in which a \<open>range\<close> loop happens to visit them. \<open>Header.Get\<close> looks up the
  canonical form of the name it is given and returns the first value, or the empty string.
\<close>

type_synonym Header = "(string \<times> string list) list"

definition lowerLetters :: string where
  "lowerLetters = ''abcdefghijklmnopqrstuvwxyz''"

definition upperLetters :: string where
  "upperLetters = ''ABCDEFGHIJKLMNOPQRSTUVWXYZ''"

definition digits :: string where
  "digits = ''0123456789''"

definition validHeaderFieldByte :: "char \<Rightarrow> bool" where
  "validHeaderFieldByte c =
     (c \<in> set lowerLetters \<or> c \<in> set upperLetters \<or> c \<in> set digits \<or>
      c \<in> set (CHR 0x27 # ''!#$%&*+-.^_`|~''))"

definition toUpper :: "char \<Rightarrow> char" where
  "toUpper c = (case map_of (zip lowerLetters upperLetters) c of Some u \<Rightarrow> u | None \<Rightarrow> c)"

definition toLower :: "char \<Rightarrow> char" where
  "toLower c = (case map_of (zip upperLetters lowerLetters) c of Some l \<Rightarrow> l | None \<Rightarrow> c)"

fun canonicalize :: "bool \<Rightarrow> string \<Rightarrow> string" where
  "canonicalize upper [] = []"
| "canonicalize upper (c # cs) =
     (let c' = (if upper \<and> c \<in> set lowerLetters then toUpper c
                else if \<not> upper \<and> c \<in> set upperLetters then toLower c
                else c)
      in c' # canonicalize (c' = CHR ''-'') cs)"

text \<open>
  \<open>textproto.CanonicalMIMEHeaderKey\<close>: a name with a byte that is not a header field byte
  is left alone; otherwise the first letter and each letter after a hyphen become upper
  case and every other letter lower case.
\<close>

definition CanonicalMIMEHeaderKey :: "string \<Rightarrow> string" where
  "CanonicalMIMEHeaderKey s =
     (if list_all validHeaderFieldByte s then canonicalize True s else s)"

definition Get :: "Header \<Rightarrow> string \<Rightarrow> string" where
  "Get h key =
     (case map_of h (CanonicalMIMEHeaderKey key) of
        None \<Rightarrow> []
      | Some [] \<Rightarrow> []
      | Some (v # _) \<Rightarrow> v)"

text \<open>Only whether \<open>req.Request.TLS\<close> is nil is ever looked at.\<close>

datatype ConnectionState = ConnectionState

record Request =
  TLS :: "ConnectionState option"
  Header :: Header

definition HeaderParameter :: "Request \<Rightarrow> string \<Rightarrow> string" where
  "HeaderParameter req name = Get (Header req) name"

section \<open>Constants\<close>

definition DefaultQPS :: int where
  "DefaultQPS = 1000000"

definition DefaultBurst :: int where
  "DefaultBurst = 1000000"

definition DefaultContentType :: string where
  "DefaultContentType = ''application/vnd.kubernetes.protobuf''"

definition DefaultCmdConfigName :: string where
  "DefaultCmdConfigName = ''kubernetes''"

definition JWETokenHeader :: string where
  "JWETokenHeader = ''jweToken''"

definition DefaultUserAgent :: string where
  "DefaultUserAgent = ''dashboard''"

definition ImpersonateUserExtraHeader :: string where
  "ImpersonateUserExtraHeader = ''Impersonate-Extra-''"

definition Version :: string where
  "Version = ''UNKNOWN''"

section \<open>Identity descriptors and configurations\<close>

text \<open>
  \<open>api.AuthInfo\<close>, with the fields this file reads or writes. A nil slice is the empty list
  and a nil map the empty association list.
\<close>

record AuthInfo =
  Token :: string
  Impersonate :: string
  ImpersonateGroups :: "string list"
  ImpersonateUserExtra :: "(string \<times> string list) list"

record restConfig =
  Host :: string
  CAFile :: string
  CAData :: string
  Insecure :: bool
  QPS :: int
  Burst :: int
  ContentType :: string
  UserAgent :: string

record Cluster =
  Server :: string
  CertificateAuthority :: string
  CertificateAuthorityData :: string
  InsecureSkipTLSVerify :: bool

record Context =
  Context_Cluster :: string
  Context_AuthInfo :: string

record cmdConfig =
  Clusters :: "(string \<times> Cluster) list"
  AuthInfos :: "(string \<times> AuthInfo option) list"
  Contexts :: "(string \<times> Context) list"
  CurrentContext :: string

datatype kubernetes_Interface = kubernetes_Clientset restConfig

datatype apiextensions_Interface = apiextensions_Clientset restConfig

datatype plugin_Interface = plugin_Clientset restConfig

section \<open>The client manager and its collaborators\<close>

text \<open>
  The manager as \<open>init\<close> leaves it: the insecure clients and configuration are set.
  \<open>tokenManager\<close> is the late-bound decryption collaborator (nil until it is set). Its
  \<open>Decrypt\<close> returns Go's pair of a descriptor pointer and an error, each of which may be nil.
\<close>

type_synonym TokenManager = "string \<Rightarrow> AuthInfo option \<times> error option"

record clientManager =
  csrfKey :: string
  kubeConfigPath :: string
  apiserverHost :: string
  inClusterConfig :: "restConfig option"
  tokenManager :: "TokenManager option"
  insecureAPIExtensionsClient :: apiextensions_Interface
  insecurePluginClient :: plugin_Interface
  insecureClient :: kubernetes_Interface
  insecureConfig :: restConfig

text \<open>\<open>args.Holder\<close>: the command line arguments that this file consults.\<close>

record Holder =
  GetCertFile :: string
  GetKeyFile :: string
  GetEnableInsecureLogin :: bool
  GetEnableSkipLogin :: bool

record SelfSubjectAccessReview =
  Spec :: string
  Allowed :: bool

text \<open>
  What lies outside this file is a parameter of the model: the arguments holder, the
  configuration loader of \<open>clientcmd\<close>, the client constructors and the calls to the
  cluster. Each collaborator is a function of its arguments that returns an error or a
  result.
\<close>

datatype RESTClient =
    CoreV1 kubernetes_Interface
  | AppsV1 kubernetes_Interface
  | BatchV1 kubernetes_Interface
  | BatchV1beta1 kubernetes_Interface
  | AutoscalingV1 kubernetes_Interface
  | StorageV1 kubernetes_Interface
  | RbacV1 kubernetes_Interface
  | NetworkingV1 kubernetes_Interface
  | ApiextensionsV1 apiextensions_Interface
  | DashboardV1alpha1 plugin_Interface

record environment =
  args_Holder :: Holder
  clientcmd_Load :: "string \<Rightarrow> string \<Rightarrow> error + restConfig"
  clientcmd_ClientConfig :: "cmdConfig \<Rightarrow> error + restConfig"
  kubernetes_NewForConfig :: "restConfig \<Rightarrow> error + kubernetes_Interface"
  apiextensions_NewForConfig :: "restConfig \<Rightarrow> error + apiextensions_Interface"
  plugin_NewForConfig :: "restConfig \<Rightarrow> error + plugin_Interface"
  SelfSubjectAccessReviews_Create ::
    "kubernetes_Interface \<Rightarrow> SelfSubjectAccessReview \<Rightarrow> error + SelfSubjectAccessReview"
  ServerVersion :: "kubernetes_Interface \<Rightarrow> error option"
  TokenReviews_Create :: "kubernetes_Interface \<Rightarrow> string \<Rightarrow> error + string"
  GetExtensionsAPIRestClient :: "apiextensions_Interface \<Rightarrow> error + RESTClient"

text \<open>
  The effects of an operation are the calls it makes to its collaborators and the lines it
  logs, in order.
\<close>

datatype event =
    Decrypt string
  | Println error
  | Load string string
  | ClientConfig cmdConfig
  | NewKubernetes restConfig
  | NewAPIExtensions restConfig
  | NewPlugin restConfig
  | CreateSelfSubjectAccessReview kubernetes_Interface SelfSubjectAccessReview
  | GetServerVersion kubernetes_Interface
  | CreateTokenReview kubernetes_Interface string
  | ExtensionsAPIRestClient apiextensions_Interface

type_synonym 'a effect = "event list \<times> 'a"

text \<open>A call to a collaborator is one event and the collaborator's answer.\<close>

definition call :: "event \<Rightarrow> 'a \<Rightarrow> 'a effect" where
  "call ev r = ([ev], r)"

text \<open>A nil pointer dereference ends the call with a run-time panic.\<close>

datatype 'a outcome = Panic | Return 'a

definition ok :: "'a \<Rightarrow> (error + 'a) effect outcome" where
  "ok x = Return ([], Inr x)"

definition fail :: "error \<Rightarrow> (error + 'a) effect outcome" where
  "fail err = Return ([], Inl err)"

text \<open>
  Go's \<open>x, err := f(); if err != nil { return nil, err }\<close>: a panic or the first error ends
  the operation, and the events of both parts are kept in order.
\<close>

definition bind ::
  "(error + 'a) effect outcome \<Rightarrow> ('a \<Rightarrow> (error + 'b) effect outcome) \<Rightarrow> (error + 'b) effect outcome" where
  "bind m f =
     (case m of
        Panic \<Rightarrow> Panic
      | Return (t, Inl err) \<Rightarrow> Return (t, Inl err)
      | Return (t, Inr x) \<Rightarrow>
          (case f x of Panic \<Rightarrow> Panic | Return (t', r) \<Rightarrow> Return (t @ t', r)))"

text \<open>The same test on a Go pair of a value and an error, either of which may be nil.\<close>

definition checked :: "('a \<times> error option) effect outcome \<Rightarrow> (error + 'a) effect outcome" where
  "checked m =
     (case m of
        Panic \<Rightarrow> Panic
      | Return (t, (x, Some err)) \<Rightarrow> Return (t, Inl err)
      | Return (t, (x, None)) \<Rightarrow> Return (t, Inr x))"

text \<open>Sequencing of a value that only a panic can withhold.\<close>

definition obind :: "'a outcome \<Rightarrow> ('a \<Rightarrow> 'b outcome) \<Rightarrow> 'b outcome" where
  "obind m f = (case m of Panic \<Rightarrow> Panic | Return x \<Rightarrow> f x)"

section \<open>Credential extraction\<close>

definition extractTokenFromHeader :: "string \<Rightarrow> string" where
  "extractTokenFromHeader authHeader =
     (if HasPrefix authHeader ''Bearer '' then TrimPrefix authHeader ''Bearer '' else [])"

text \<open>
  The loop over the header set that collects the impersonation extras: one step per entry
  of the map, in the order of the \<open>range\<close>.
\<close>

definition extraStep :: "string \<times> string list \<Rightarrow> (string \<times> string list) list \<Rightarrow> (string \<times> string list) list" where
  "extraStep entry extra =
     (case entry of (headerName, headerValues) \<Rightarrow>
        if HasPrefix headerName ImpersonateUserExtraHeader
        then AList.update (drop (length ImpersonateUserExtraHeader) headerName) headerValues extra
        else extra)"

definition impersonateGroups :: "Header \<Rightarrow> string list" where
  "impersonateGroups h =
     (case map_of h ''Impersonate-Group'' of
        None \<Rightarrow> []
      | Some groupsImpersonationHeader \<Rightarrow>
          if length groupsImpersonationHeader > 0 then groupsImpersonationHeader else [])"

text \<open>A nil request panics at the first header that is read from it.\<close>

definition extractAuthInfo ::
  "clientManager \<Rightarrow> Request option \<Rightarrow> (AuthInfo option \<times> error option) effect outcome" where
  "extractAuthInfo self req =
     (case req of
        None \<Rightarrow> Panic
      | Some r \<Rightarrow>
         (let authHeader = HeaderParameter r ''Authorization'';
              impersonationHeader = HeaderParameter r ''Impersonate-User'';
              jweToken = HeaderParameter r JWETokenHeader;
              token = extractTokenFromHeader authHeader
          in if length token > 0 then
               (let authInfo = \<lparr>Token = token, Impersonate = [], ImpersonateGroups = [],
                                ImpersonateUserExtra = []\<rparr>
                in if length impersonationHeader > 0 then
                     Return ([], (Some (authInfo\<lparr>Impersonate := impersonationHeader,
                                          ImpersonateGroups := impersonateGroups (Header r),
                                          ImpersonateUserExtra := fold extraStep (Header r) []\<rparr>),
                                  None))
                   else Return ([], (Some authInfo, None)))
             else
               (case tokenManager self of
                  Some manager \<Rightarrow>
                    if length jweToken > 0 then Return (call (Decrypt jweToken) (manager jweToken))
                    else Return ([], (None, Some (NewUnauthorized MsgLoginUnauthorizedError)))
                | None \<Rightarrow> Return ([], (None, Some (NewUnauthorized MsgLoginUnauthorizedError))))))"

definition containsAuthInfo :: "Request option \<Rightarrow> bool outcome" where
  "containsAuthInfo req =
     (case req of
        None \<Rightarrow> Panic
      | Some r \<Rightarrow>
         (let authHeader = HeaderParameter r ''Authorization'';
              jweToken = HeaderParameter r JWETokenHeader
          in Return (length authHeader > 0 \<or> length jweToken > 0)))"

section \<open>Mode decision\<close>

definition isLoginEnabled :: "environment \<Rightarrow> Request option \<Rightarrow> bool outcome" where
  "isLoginEnabled env req =
     (case req of
        None \<Rightarrow> Panic
      | Some r \<Rightarrow> Return (TLS r \<noteq> None \<or> GetEnableInsecureLogin (args_Holder env)))"

definition isSecureModeEnabled :: "environment \<Rightarrow> Request option \<Rightarrow> bool outcome" where
  "isSecureModeEnabled env req =
     obind (isLoginEnabled env req) (\<lambda>login.
       if login \<and> \<not> GetEnableSkipLogin (args_Holder env) then Return True
       else obind (isLoginEnabled env req) (\<lambda>login'.
         if login' \<and> GetEnableSkipLogin (args_Holder env) then containsAuthInfo req
         else Return False))"

section \<open>Configurations and clients\<close>

definition initConfig :: "restConfig \<Rightarrow> restConfig" where
  "initConfig cfg =
     cfg\<lparr>QPS := DefaultQPS, Burst := DefaultBurst, ContentType := DefaultContentType,
         UserAgent := DefaultUserAgent @ ''/'' @ Version\<rparr>"

definition isRunningInCluster :: "clientManager \<Rightarrow> bool" where
  "isRunningInCluster self = (inClusterConfig self \<noteq> None)"

definition buildConfigFromFlags :: "clientManager \<Rightarrow> environment \<Rightarrow> string \<Rightarrow> string \<Rightarrow> (error + restConfig) effect" where
  "buildConfigFromFlags self env apiserverHost' kubeConfigPath' =
     (if length kubeConfigPath' > 0 \<or> length apiserverHost' > 0 then
        call (Load kubeConfigPath' apiserverHost') (clientcmd_Load env kubeConfigPath' apiserverHost')
      else if isRunningInCluster self then
        (case inClusterConfig self of
           Some cfg \<Rightarrow> ([], Inr cfg)
         | None \<Rightarrow> ([], Inl (NewInvalid ''could not create client config'')))
      else ([], Inl (NewInvalid ''could not create client config'')))"

definition buildCmdConfig :: "AuthInfo option \<Rightarrow> restConfig \<Rightarrow> cmdConfig" where
  "buildCmdConfig authInfo cfg =
     \<lparr>Clusters = [(DefaultCmdConfigName,
                   \<lparr>Server = Host cfg, CertificateAuthority = CAFile cfg,
                    CertificateAuthorityData = CAData cfg,
                    InsecureSkipTLSVerify = Insecure cfg\<rparr>)],
      AuthInfos = [(DefaultCmdConfigName, authInfo)],
      Contexts = [(DefaultCmdConfigName,
                   \<lparr>Context_Cluster = DefaultCmdConfigName,
                    Context_AuthInfo = DefaultCmdConfigName\<rparr>)],
      CurrentContext = DefaultCmdConfigName\<rparr>"

definition ClientCmdConfig :: "clientManager \<Rightarrow> environment \<Rightarrow> Request option \<Rightarrow> (error + cmdConfig) effect outcome" where
  "ClientCmdConfig self env req =
     bind (checked (extractAuthInfo self req)) (\<lambda>authInfo.
     bind (Return (buildConfigFromFlags self env (apiserverHost self) (kubeConfigPath self))) (\<lambda>cfg.
     ok (buildCmdConfig authInfo cfg)))"

definition secureConfig :: "clientManager \<Rightarrow> environment \<Rightarrow> Request option \<Rightarrow> (error + restConfig) effect outcome" where
  "secureConfig self env req =
     bind (ClientCmdConfig self env req) (\<lambda>cmdConfig.
     bind (Return (call (ClientConfig cmdConfig) (clientcmd_ClientConfig env cmdConfig))) (\<lambda>cfg.
     ok (initConfig cfg)))"

definition secureClient :: "clientManager \<Rightarrow> environment \<Rightarrow> Request option \<Rightarrow> (error + kubernetes_Interface) effect outcome" where
  "secureClient self env req =
     bind (secureConfig self env req) (\<lambda>cfg.
     bind (Return (call (NewKubernetes cfg) (kubernetes_NewForConfig env cfg))) (\<lambda>client.
     ok client))"

definition secureAPIExtensionsClient :: "clientManager \<Rightarrow> environment \<Rightarrow> Request option \<Rightarrow> (error + apiextensions_Interface) effect outcome" where
  "secureAPIExtensionsClient self env req =
     bind (secureConfig self env req) (\<lambda>cfg.
     bind (Return (call (NewAPIExtensions cfg) (apiextensions_NewForConfig env cfg))) (\<lambda>client.
     ok client))"

definition securePluginClient :: "clientManager \<Rightarrow> environment \<Rightarrow> Request option \<Rightarrow> (error + plugin_Interface) effect outcome" where
  "securePluginClient self env req =
     bind (secureConfig self env req) (\<lambda>cfg.
     bind (Return (call (NewPlugin cfg) (plugin_NewForConfig env cfg))) (\<lambda>client.
     ok client))"

section \<open>Public operations\<close>

definition InsecureClient :: "clientManager \<Rightarrow> kubernetes_Interface" where
  "InsecureClient self = insecureClient self"

definition InsecureAPIExtensionsClient :: "clientManager \<Rightarrow> apiextensions_Interface" where
  "InsecureAPIExtensionsClient self = insecureAPIExtensionsClient self"

definition InsecurePluginClient :: "clientManager \<Rightarrow> plugin_Interface" where
  "InsecurePluginClient self = insecurePluginClient self"

definition InsecureConfig :: "clientManager \<Rightarrow> restConfig" where
  "InsecureConfig self = insecureConfig self"

definition Client :: "clientManager \<Rightarrow> environment \<Rightarrow> Request option \<Rightarrow> (error + kubernetes_Interface) effect outcome" where
  "Client self env req =
     (if req = None then fail (NewBadRequest ''request can not be nil'')
      else obind (isSecureModeEnabled env req) (\<lambda>secure.
        if secure then secureClient self env req else ok (InsecureClient self)))"

definition APIExtensionsClient :: "clientManager \<Rightarrow> environment \<Rightarrow> Request option \<Rightarrow> (error + apiextensions_Interface) effect outcome" where
  "APIExtensionsClient self env req =
     (if req = None then fail (NewBadRequest ''request can not be nil!'')
      else obind (isSecureModeEnabled env req) (\<lambda>secure.
        if secure then secureAPIExtensionsClient self env req
        else ok (InsecureAPIExtensionsClient self)))"

definition PluginClient :: "clientManager \<Rightarrow> environment \<Rightarrow> Request option \<Rightarrow> (error + plugin_Interface) effect outcome" where
  "PluginClient self env req =
     (if req = None then fail (NewBadRequest ''request can not be nil!'')
      else obind (isSecureModeEnabled env req) (\<lambda>secure.
        if secure then securePluginClient self env req else ok (InsecurePluginClient self)))"

definition Config :: "clientManager \<Rightarrow> environment \<Rightarrow> Request option \<Rightarrow> (error + restConfig) effect outcome" where
  "Config self env req =
     (if req = None then fail (NewBadRequest ''request can not be nil'')
      else obind (isSecureModeEnabled env req) (\<lambda>secure.
        if secure then secureConfig self env req else ok (InsecureConfig self)))"

text \<open>
  \<open>CanI\<close> returns a boolean only. The descriptor of the first extraction is used for the
  fail-closed test and its error is dropped; an error of the client resolution or of the
  access review is printed to the log.
\<close>

definition CanI :: "clientManager \<Rightarrow> environment \<Rightarrow> Request option \<Rightarrow> SelfSubjectAccessReview \<Rightarrow> bool effect outcome" where
  "CanI self env req ssar =
     (case extractAuthInfo self req of
        Panic \<Rightarrow> Panic
      | Return (t, (info, _)) \<Rightarrow>
          if info = None \<and> length (GetCertFile (args_Holder env)) > 0
             \<and> length (GetKeyFile (args_Holder env)) > 0
          then Return (t, False)
          else
            (case Client self env req of
               Panic \<Rightarrow> Panic
             | Return (t', Inl err) \<Rightarrow> Return (t @ t' @ [Println err], False)
             | Return (t', Inr client) \<Rightarrow>
                 (case SelfSubjectAccessReviews_Create env client ssar of
                    Inl err \<Rightarrow>
                      Return (t @ t' @ [CreateSelfSubjectAccessReview client ssar, Println err],
                              False)
                  | Inr response \<Rightarrow>
                      Return (t @ t' @ [CreateSelfSubjectAccessReview client ssar],
                              Allowed response))))"

text \<open>
  Modelled from the spec: \<open>NewResourceVerber\<close> is defined in another file of the package,
  which is not among the sources. It composes the REST clients it is given and the
  configuration into the resource-verb abstraction.
\<close>

datatype ResourceVerber = NewResourceVerber "RESTClient list" "restConfig option"

definition VerberClient ::
  "clientManager \<Rightarrow> environment \<Rightarrow> Request option \<Rightarrow> restConfig option \<Rightarrow> (error + ResourceVerber) effect outcome" where
  "VerberClient self env req config =
     bind (Client self env req) (\<lambda>k8sClient.
     bind (APIExtensionsClient self env req) (\<lambda>apiextensionsclient.
     bind (PluginClient self env req) (\<lambda>pluginsclient.
     bind (Return (call (ExtensionsAPIRestClient apiextensionsclient)
                        (GetExtensionsAPIRestClient env apiextensionsclient)))
       (\<lambda>apiextensionsRestClient.
     ok (NewResourceVerber
           [CoreV1 k8sClient, AppsV1 k8sClient, BatchV1 k8sClient, BatchV1beta1 k8sClient,
            AutoscalingV1 k8sClient, StorageV1 k8sClient, RbacV1 k8sClient,
            NetworkingV1 k8sClient, apiextensionsRestClient, DashboardV1alpha1 pluginsclient]
           config)))))"

section \<open>Regular expressions\<close>

text \<open>
  The two expressions of this file are sequences of literal text, repetitions of one
  character class (\<open>+\<close> and \<open>*\<close>, greedy, some of them capturing groups) and the end of the
  text. Go's \<open>regexp\<close> returns the match that a backtracking search finds first: a
  repetition takes as many characters as it can and gives them back one at a time while
  the rest of the expression fails. The result of a match is the number of bytes it
  consumed and the texts of its groups.
\<close>

datatype node = Literal string | Repeat bool nat "char \<Rightarrow> bool" | EndText

fun greedy :: "(nat \<Rightarrow> 'a option) \<Rightarrow> nat \<Rightarrow> nat \<Rightarrow> 'a option" where
  "greedy attempt least 0 = (if least = 0 then attempt 0 else None)"
| "greedy attempt least (Suc k) =
     (if Suc k < least then None
      else case attempt (Suc k) of Some r \<Rightarrow> Some r | None \<Rightarrow> greedy attempt least k)"

primrec matchHere :: "node list \<Rightarrow> string \<Rightarrow> (nat \<times> string list) option" where
  "matchHere [] s = Some (0, [])"
| "matchHere (n # rest) s =
     (case n of
        Literal l \<Rightarrow>
          if HasPrefix s l
          then map_option (\<lambda>(j, groups). (length l + j, groups)) (matchHere rest (drop (length l) s))
          else None
      | Repeat capture least cls \<Rightarrow>
          greedy (\<lambda>k. map_option (\<lambda>(j, groups). (k + j, (if capture then [take k s] else []) @ groups))
                        (matchHere rest (drop k s)))
            least (length (takeWhile cls s))
      | EndText \<Rightarrow> if s = [] then matchHere rest s else None)"

text \<open>
  \<open>FindStringSubmatch\<close>: the leftmost match, as the list of the matched text and of the
  groups; nil when no position matches.
\<close>

primrec FindStringSubmatch :: "node list \<Rightarrow> string \<Rightarrow> string list option" where
  "FindStringSubmatch re [] =
     (case matchHere re [] of Some (k, groups) \<Rightarrow> Some ([] # groups) | None \<Rightarrow> None)"
| "FindStringSubmatch re (c # s) =
     (case matchHere re (c # s) of
        Some (k, groups) \<Rightarrow> Some (take k (c # s) # groups)
      | None \<Rightarrow> FindStringSubmatch re s)"

text \<open>
  \<open>ReplaceAllString\<close> with the template \<open>$1\<close>, for an expression that begins with \<open>^\<close>:
  only a match at the start of the text is replaced, by its first group.
\<close>

definition ReplaceAllString_1 :: "node list \<Rightarrow> string \<Rightarrow> string" where
  "ReplaceAllString_1 re src =
     (case matchHere re src of
        Some (k, g # _) \<Rightarrow> g @ drop k src
      | Some (k, []) \<Rightarrow> drop k src
      | None \<Rightarrow> src)"

text \<open>\<open>\w\<close> is an ASCII letter, a digit or the underscore; \<open>.\<close> is any character but a newline.\<close>

definition wordChar :: "char \<Rightarrow> bool" where
  "wordChar c = (c \<in> set digits \<or> c \<in> set upperLetters \<or> c \<in> set lowerLetters \<or> c = CHR ''_'')"

definition wordOrHyphen :: "char \<Rightarrow> bool" where
  "wordOrHyphen c = (wordChar c \<or> c = CHR ''-'')"

definition wordHyphenUnderscore :: "char \<Rightarrow> bool" where
  "wordHyphenUnderscore c = (wordChar c \<or> c = CHR ''-'' \<or> c = CHR ''_'')"

definition anyChar :: "char \<Rightarrow> bool" where
  "anyChar c = (c \<noteq> CHR 0x0A)"

section \<open>User names\<close>

text \<open>The expression \<^verbatim>\<open>^.* User "(.*)" cannot .*$\<close>, matched from the start of the text.\<close>

definition usernameFromErrorRegexp :: "node list" where
  "usernameFromErrorRegexp =
     [Repeat False 0 anyChar, Literal ('' User '' @ [CHR 0x22]), Repeat True 0 anyChar,
      Literal (CHR 0x22 # '' cannot ''), Repeat False 0 anyChar, EndText]"

definition getUsernameFromError :: "error \<Rightarrow> string" where
  "getUsernameFromError err = ReplaceAllString_1 usernameFromErrorRegexp (Error err)"

text \<open>
  The expression
  \<^verbatim>\<open>(?P<ignore>[\w-]+):(?P<type>[\w-]+):(?P<namespace>[\w-_]+):(?P<name>[\w-]+)\<close>.
\<close>

definition usernameRegexp :: "node list" where
  "usernameRegexp =
     [Repeat True 1 wordOrHyphen, Literal '':'', Repeat True 1 wordOrHyphen, Literal '':'',
      Repeat True 1 wordHyphenUnderscore, Literal '':'', Repeat True 1 wordOrHyphen]"

definition getUsername :: "string \<Rightarrow> string" where
  "getUsername name =
     (let groups = 5; nameGroupIdx = 4;
          match = FindStringSubmatch usernameRegexp name
      in case match of
           None \<Rightarrow> name
         | Some m \<Rightarrow> if length m \<noteq> groups then name else m ! nameGroupIdx)"

section \<open>Access probe\<close>

definition HasAccess :: "clientManager \<Rightarrow> environment \<Rightarrow> AuthInfo \<Rightarrow> (string \<times> error option) effect" where
  "HasAccess self env authInfo =
     (case buildConfigFromFlags self env (apiserverHost self) (kubeConfigPath self) of
        (t1, Inl err) \<Rightarrow> (t1, ([], Some err))
      | (t1, Inr cfg) \<Rightarrow>
         (let clientConfig = buildCmdConfig (Some authInfo) cfg;
              t2 = t1 @ [ClientConfig clientConfig]
          in case clientcmd_ClientConfig env clientConfig of
               Inl err \<Rightarrow> (t2, ([], Some err))
             | Inr cfg' \<Rightarrow>
                (let t3 = t2 @ [NewKubernetes cfg']
                 in case kubernetes_NewForConfig env cfg' of
                      Inl err \<Rightarrow> (t3, ([], Some err))
                    | Inr client \<Rightarrow>
                       (let t4 = t3 @ [GetServerVersion client]
                        in case ServerVersion env client of
                             Some err \<Rightarrow>
                               if IsForbidden err then (t4, (getUsernameFromError err, Some err))
                               else (t4, ([], Some err))
                           | None \<Rightarrow>
                              (let t5 = t4 @ [CreateTokenReview client (Token authInfo)]
                               in case TokenReviews_Create env client (Token authInfo) of
                                    Inl err \<Rightarrow>
                                      if IsForbidden err then (t5, (getUsernameFromError err, None))
                                      else (t5, ([], Some err))
                                  | Inr username \<Rightarrow> (t5, (getUsername username, None)))))))"

section \<open>Reading an outcome\<close>

text \<open>The value an operation returned, and the errors it printed to the log.\<close>

definition returned :: "'a effect outcome \<Rightarrow> 'a option" where
  "returned m = (case m of Panic \<Rightarrow> None | Return (t, x) \<Rightarrow> Some x)"

definition logged :: "'a effect outcome \<Rightarrow> error list" where
  "logged m =
     (case m of
        Panic \<Rightarrow> []
      | Return (t, x) \<Rightarrow> concat (map (\<lambda>ev. case ev of Println err \<Rightarrow> [err] | _ \<Rightarrow> []) t))"

section \<open>The structured user name\<close>





section \<open>Example inputs\<close>

definition exampleConfig :: restConfig where
  "exampleConfig =
     \<lparr>Host = ''https://cluster.example:6443'', CAFile = [], CAData = [], Insecure = False,
      QPS = 0, Burst = 0, ContentType = [], UserAgent = []\<rparr>"

definition exampleManager :: "TokenManager option \<Rightarrow> clientManager" where
  "exampleManager manager =
     \<lparr>csrfKey = ''key'', kubeConfigPath = [], apiserverHost = ''https://cluster.example:6443'',
      inClusterConfig = None, tokenManager = manager,
      insecureAPIExtensionsClient = apiextensions_Clientset (initConfig exampleConfig),
      insecurePluginClient = plugin_Clientset (initConfig exampleConfig),
      insecureClient = kubernetes_Clientset (initConfig exampleConfig),
      insecureConfig = initConfig exampleConfig\<rparr>"

definition exampleDecrypt :: TokenManager where
  "exampleDecrypt jwe =
     (Some \<lparr>Token = ''decrypted'', Impersonate = [], ImpersonateGroups = [],
            ImpersonateUserExtra = []\<rparr>, None)"

definition forbiddenError :: error where
  "forbiddenError =
     StatusError Forbidden (''forbidden: User '' @ [CHR 0x22] @ ''alice'' @ [CHR 0x22] @ '' cannot get path'')"

definition timeoutError :: error where
  "timeoutError = StatusError Unknown ''i/o timeout''"

text \<open>
  An environment in which every collaborator succeeds, but for the two probes, whose
  answers are given.
\<close>

definition exampleEnvironment ::
  "Holder \<Rightarrow> (error + bool) \<Rightarrow> error option \<Rightarrow> (error + string) \<Rightarrow> environment" where
  "exampleEnvironment holder review version tokenReview =
     \<lparr>args_Holder = holder,
      clientcmd_Load = (\<lambda>path host. Inr (exampleConfig\<lparr>Host := host\<rparr>)),
      clientcmd_ClientConfig = (\<lambda>cmd. Inr exampleConfig),
      kubernetes_NewForConfig = (\<lambda>cfg. Inr (kubernetes_Clientset cfg)),
      apiextensions_NewForConfig = (\<lambda>cfg. Inr (apiextensions_Clientset cfg)),
      plugin_NewForConfig = (\<lambda>cfg. Inr (plugin_Clientset cfg)),
      SelfSubjectAccessReviews_Create =
        (\<lambda>client ssar. case review of Inl err \<Rightarrow> Inl err | Inr b \<Rightarrow> Inr (ssar\<lparr>Allowed := b\<rparr>)),
      ServerVersion = (\<lambda>client. version),
      TokenReviews_Create = (\<lambda>client token. tokenReview),
      GetExtensionsAPIRestClient = (\<lambda>client. Inr (ApiextensionsV1 client))\<rparr>"

definition holder :: "bool \<Rightarrow> bool \<Rightarrow> bool \<Rightarrow> Holder" where
  "holder certificates insecureLogin skipLogin =
     \<lparr>GetCertFile = (if certificates then ''tls.crt'' else []),
      GetKeyFile = (if certificates then ''tls.key'' else []),
      GetEnableInsecureLogin = insecureLogin, GetEnableSkipLogin = skipLogin\<rparr>"

definition quietEnvironment :: "Holder \<Rightarrow> environment" where
  "quietEnvironment h =
     exampleEnvironment h (Inr True) None (Inr ''system:serviceaccount:kube-system:dashboard'')"

definition impersonatingRequest :: Request where
  "impersonatingRequest =
     \<lparr>TLS = Some ConnectionState,
      Header = [(''Authorization'', [''Bearer abc'']), (''Impersonate-User'', [''alice'']),
                (''Impersonate-Group'', [''dev'', ''ops'']),
                (''Impersonate-Extra-reason'', [''audit'', ''followup'']),
                (''Jwetoken'', [''opaque''])]\<rparr>"

definition bearerRequest :: Request where
  "bearerRequest = \<lparr>TLS = Some ConnectionState, Header = [(''Authorization'', [''Bearer abc''])]\<rparr>"

definition bareBearerRequest :: Request where
  "bareBearerRequest =
     \<lparr>TLS = Some ConnectionState,
      Header = [(''Authorization'', [''Bearer '']), (''Jwetoken'', [''opaque''])]\<rparr>"

definition basicRequest :: Request where
  "basicRequest =
     \<lparr>TLS = Some ConnectionState, Header = [(''Authorization'', [''Basic dXNlcjpwYXNz''])]\<rparr>"

definition opaqueRequest :: Request where
  "opaqueRequest = \<lparr>TLS = Some ConnectionState, Header = [(''Jwetoken'', [''opaque''])]\<rparr>"

definition anonymousRequest :: Request where
  "anonymousRequest = \<lparr>TLS = None, Header = []\<rparr>"

definition exampleAuthInfo :: AuthInfo where
  "exampleAuthInfo =
     \<lparr>Token = ''abc'', Impersonate = [], ImpersonateGroups = [], ImpersonateUserExtra = []\<rparr>"

definition exampleReview :: SelfSubjectAccessReview where
  "exampleReview = \<lparr>Spec = ''get pods'', Allowed = False\<rparr>"

definition probeEnvironment :: "error option \<Rightarrow> (error + string) \<Rightarrow> environment" where
  "probeEnvironment version tokenReview =
     exampleEnvironment (holder True False False) (Inr True) version tokenReview"

definition reviewEnvironment :: "(error + bool) \<Rightarrow> environment" where
  "reviewEnvironment review =
     exampleEnvironment (holder True False False) review None (Inr ''alice'')"

section \<open>Basic facts\<close>

lemma bind_simps:
  "bind Panic f = Panic"
  "bind (Return (t, Inl err)) f = Return (t, Inl err)"
  "bind (Return (t, Inr x)) f = (case f x of Panic \<Rightarrow> Panic | Return (t', r) \<Rightarrow> Return (t @ t', r))"
  by (simp_all add: bind_def)

lemma obind_simps:
  "obind Panic g = Panic"
  "obind (Return x) g = g x"
  by (simp_all add: obind_def)

lemma isLoginEnabled_Some:
  "isLoginEnabled env (Some req) = Return (TLS req \<noteq> None \<or> GetEnableInsecureLogin (args_Holder env))"
  by (simp add: isLoginEnabled_def)

lemma containsAuthInfo_Some:
  "containsAuthInfo (Some req) =
     Return (HeaderParameter req ''Authorization'' \<noteq> [] \<or> HeaderParameter req JWETokenHeader \<noteq> [])"
  by (simp add: containsAuthInfo_def)

lemma isSecureModeEnabled_Some:
  "isSecureModeEnabled env (Some req) =
     Return ((TLS req \<noteq> None \<or> GetEnableInsecureLogin (args_Holder env)) \<and>
             (GetEnableSkipLogin (args_Holder env) \<longrightarrow>
                HeaderParameter req ''Authorization'' \<noteq> [] \<or> HeaderParameter req JWETokenHeader \<noteq> []))"
  by (auto simp add: isSecureModeEnabled_def isLoginEnabled_Some containsAuthInfo_Some obind_simps)

lemma unauthorized_or_decrypt:
  assumes "extractTokenFromHeader (HeaderParameter req ''Authorization'') = []"
  shows "extractAuthInfo self (Some req) =
     (case tokenManager self of
        Some manager \<Rightarrow>
          if HeaderParameter req JWETokenHeader \<noteq> []
          then Return ([Decrypt (HeaderParameter req JWETokenHeader)],
                       manager (HeaderParameter req JWETokenHeader))
          else Return ([], (None, Some (StatusError Unauthorized MsgLoginUnauthorizedError)))
      | None \<Rightarrow> Return ([], (None, Some (StatusError Unauthorized MsgLoginUnauthorizedError))))"
  using assms
  by (simp add: extractAuthInfo_def call_def Let_def NewUnauthorized_def split: option.splits)

lemma extractAuthInfo_bearer:
  assumes "extractTokenFromHeader (HeaderParameter req ''Authorization'') \<noteq> []"
  shows "extractAuthInfo self (Some req) =
     Return ([], (Some \<lparr>Token = extractTokenFromHeader (HeaderParameter req ''Authorization''),
                  Impersonate = HeaderParameter req ''Impersonate-User'',
                  ImpersonateGroups =
                    (if HeaderParameter req ''Impersonate-User'' \<noteq> []
                     then impersonateGroups (Header req) else []),
                  ImpersonateUserExtra =
                    (if HeaderParameter req ''Impersonate-User'' \<noteq> []
                     then fold extraStep (Header req) [] else [])\<rparr>, None))"
  using assms by (simp add: extractAuthInfo_def Let_def)

lemma extractTokenFromHeader_eq:
  "extractTokenFromHeader a = (if HasPrefix a ''Bearer '' then drop (length ''Bearer '') a else [])"
  by (simp add: extractTokenFromHeader_def TrimPrefix_def)

lemma fold_extraStep:
  "distinct (map fst h) \<Longrightarrow>
   map_of (fold extraStep h acc) k =
     (case map_of h (ImpersonateUserExtraHeader @ k) of Some v \<Rightarrow> Some v | None \<Rightarrow> map_of acc k)"
proof (induction h arbitrary: acc)
  case Nil
  then show ?case by simp
next
  case (Cons e h)
  obtain name vs where e: "e = (name, vs)" by (cases e)
  have d: "distinct (map fst h)" and nin: "name \<notin> fst ` set h" using Cons.prems e by auto
  have pre: "HasPrefix name ImpersonateUserExtraHeader \<and> drop (length ImpersonateUserExtraHeader) name = k
        \<longleftrightarrow> name = ImpersonateUserExtraHeader @ k"
    unfolding HasPrefix_def by (metis append_eq_conv_conj)
  show ?case
  proof (cases "name = ImpersonateUserExtraHeader @ k")
    case True
    then have "map_of h (ImpersonateUserExtraHeader @ k) = None"
      using nin by (simp add: map_of_eq_None_iff)
    then show ?thesis using True pre e Cons.IH[OF d]
      by (simp add: extraStep_def update_conv)
  next
    case False
    then show ?thesis using pre e Cons.IH[OF d]
      by (auto simp add: extraStep_def update_conv split: option.splits)
  qed
qed


lemma canonical_names:
  "CanonicalMIMEHeaderKey ''Authorization'' = ''Authorization''"
  "CanonicalMIMEHeaderKey ''Impersonate-User'' = ''Impersonate-User''"
  "CanonicalMIMEHeaderKey ''jweToken'' = ''Jwetoken''"
  by code_simp+

lemmas header_eval = HeaderParameter_def Get_def canonical_names JWETokenHeader_def HasPrefix_def

lemmas example_defs = quietEnvironment_def exampleEnvironment_def holder_def exampleManager_def
  exampleDecrypt_def

lemma extraStep_other:
  "\<not> HasPrefix (fst e) ImpersonateUserExtraHeader \<Longrightarrow> extraStep e acc = acc"
  by (cases e) (simp add: extraStep_def)

lemma fold_extraStep_filter:
  "\<not> HasPrefix key ImpersonateUserExtraHeader \<Longrightarrow>
   fold extraStep (filter (\<lambda>e. fst e \<noteq> key) h) acc = fold extraStep h acc"
  by (induction h arbitrary: acc) (simp_all add: extraStep_other)

lemma map_of_filter_other:
  "k \<noteq> key \<Longrightarrow> map_of (filter (\<lambda>e. fst e \<noteq> key) h) k = map_of h k"
  by (induction h) auto

lemma Get_filter_other:
  "CanonicalMIMEHeaderKey name \<noteq> key \<Longrightarrow> Get (filter (\<lambda>e. fst e \<noteq> key) h) name = Get h name"
  by (simp add: Get_def map_of_filter_other)

lemma jwe_key_facts:
  "CanonicalMIMEHeaderKey JWETokenHeader = ''Jwetoken''"
  "\<not> HasPrefix ''Jwetoken'' ImpersonateUserExtraHeader"
  by (simp_all add: JWETokenHeader_def canonical_names HasPrefix_def ImpersonateUserExtraHeader_def)

lemma bearer_fields_without_jwe:
  assumes "filter (\<lambda>e. fst e \<noteq> CanonicalMIMEHeaderKey JWETokenHeader) (Header req') =
           filter (\<lambda>e. fst e \<noteq> CanonicalMIMEHeaderKey JWETokenHeader) (Header req)"
  shows "HeaderParameter req' ''Authorization'' = HeaderParameter req ''Authorization''"
    and "HeaderParameter req' ''Impersonate-User'' = HeaderParameter req ''Impersonate-User''"
    and "impersonateGroups (Header req') = impersonateGroups (Header req)"
    and "fold extraStep (Header req') [] = fold extraStep (Header req) []"
proof -
  let ?f = "filter (\<lambda>e. fst e \<noteq> ''Jwetoken'')"
  have eq: "?f (Header req') = ?f (Header req)" using assms by (simp add: jwe_key_facts)
  have "Get (Header req') ''Authorization'' = Get (?f (Header req')) ''Authorization''"
    by (simp add: Get_filter_other canonical_names)
  also have "\<dots> = Get (Header req) ''Authorization''"
    unfolding eq by (simp add: Get_filter_other canonical_names)
  finally show "HeaderParameter req' ''Authorization'' = HeaderParameter req ''Authorization''"
    by (simp add: HeaderParameter_def)
  have "Get (Header req') ''Impersonate-User'' = Get (?f (Header req')) ''Impersonate-User''"
    by (simp add: Get_filter_other canonical_names)
  also have "\<dots> = Get (Header req) ''Impersonate-User''"
    unfolding eq by (simp add: Get_filter_other canonical_names)
  finally show "HeaderParameter req' ''Impersonate-User'' = HeaderParameter req ''Impersonate-User''"
    by (simp add: HeaderParameter_def)
  have "map_of (Header req') ''Impersonate-Group'' = map_of (?f (Header req')) ''Impersonate-Group''"
    by (simp add: map_of_filter_other)
  also have "\<dots> = map_of (Header req) ''Impersonate-Group''"
    unfolding eq by (simp add: map_of_filter_other)
  finally show "impersonateGroups (Header req') = impersonateGroups (Header req)"
    by (simp add: impersonateGroups_def)
  have "fold extraStep (Header req') [] = fold extraStep (?f (Header req')) []"
    by (simp add: fold_extraStep_filter jwe_key_facts)
  also have "\<dots> = fold extraStep (Header req) []"
    unfolding eq by (simp add: fold_extraStep_filter jwe_key_facts)
  finally show "fold extraStep (Header req') [] = fold extraStep (Header req) []" .
qed

lemma extractAuthInfo_returns:
  "\<exists>t info e. extractAuthInfo self (Some req) = Return (t, (info, e))"
  by (cases "extractTokenFromHeader (HeaderParameter req ''Authorization'') = []")
     (auto simp add: unauthorized_or_decrypt extractAuthInfo_bearer split: option.splits
           intro: prod.exhaust)

lemma checked_simps:
  "checked Panic = Panic"
  "checked (Return (t, (x, Some err))) = Return (t, Inl err)"
  "checked (Return (t, (x, None))) = Return (t, Inr x)"
  by (simp_all add: checked_def)

lemma bind_returns:
  assumes "\<exists>t r. m = Return (t, r)" and "\<And>x. \<exists>t r. f x = Return (t, r)"
  shows "\<exists>t r. bind m f = Return (t, r)"
proof -
  obtain t r where m: "m = Return (t, r)" using assms(1) by blast
  show ?thesis
  proof (cases r)
    case (Inl err)
    then show ?thesis using m by (simp add: bind_simps)
  next
    case (Inr x)
    obtain t' r' where "f x = Return (t', r')" using assms(2) by blast
    then show ?thesis using m Inr by (simp add: bind_simps)
  qed
qed

lemma checked_returns:
  "\<exists>t r. m = Return (t, r) \<Longrightarrow> \<exists>t r. checked m = Return (t, r)"
  by (auto simp add: checked_def split: option.splits)

lemma ClientCmdConfig_returns:
  "\<exists>t r. ClientCmdConfig self env (Some req) = Return (t, r)"
  unfolding ClientCmdConfig_def
  by (intro bind_returns checked_returns) (use extractAuthInfo_returns in \<open>auto simp add: ok_def\<close>)

lemma secureConfig_returns:
  "\<exists>t r. secureConfig self env (Some req) = Return (t, r)"
  unfolding secureConfig_def
  by (intro bind_returns ClientCmdConfig_returns) (auto simp add: ok_def call_def)

lemma secureClient_returns:
  "\<exists>t r. secureClient self env (Some req) = Return (t, r)"
  unfolding secureClient_def
  by (intro bind_returns secureConfig_returns) (auto simp add: ok_def call_def)

lemma Client_returns:
  "\<exists>t r. Client self env (Some req) = Return (t, r)"
  using secureClient_returns [of self env req]
  by (auto simp add: Client_def isSecureModeEnabled_Some obind_simps ok_def)

lemmas run_defs = CanI_def Client_def secureClient_def secureConfig_def ClientCmdConfig_def
  buildConfigFromFlags_def extractAuthInfo_def extractTokenFromHeader_def TrimPrefix_def
  isSecureModeEnabled_Some bind_simps obind_simps checked_simps ok_def fail_def call_def
  Let_def NewUnauthorized_def returned_def logged_def

lemma getUsernameFromError_forbiddenError: "getUsernameFromError forbiddenError = ''alice''"
  by (simp add: getUsernameFromError_def forbiddenError_def ReplaceAllString_1_def
      usernameFromErrorRegexp_def anyChar_def HasPrefix_def)

section \<open>The matcher on the user name expression\<close>
























section \<open>Mode decision: claim C1\<close>

text \<open>
  Claim C1. For every request, the mode decider selects secure mode exactly when login is
  enabled and skip-login is not allowed, or login is enabled, skip-login is allowed and the
  existence check finds a credential header. Login is enabled when the request came over
  TLS or insecure login is explicitly allowed; when it is not enabled the decision is
  insecure, whatever the skip-login flag and the headers are.
\<close>

theorem isSecureModeEnabled_decision:
  "isSecureModeEnabled env (Some req) =
     Return ((isLoginEnabled env (Some req) = Return True \<and> \<not> GetEnableSkipLogin (args_Holder env)) \<or>
             (isLoginEnabled env (Some req) = Return True \<and> GetEnableSkipLogin (args_Holder env) \<and>
              containsAuthInfo (Some req) = Return True))
   \<and> isLoginEnabled env (Some req) =
       Return (TLS req \<noteq> None \<or> GetEnableInsecureLogin (args_Holder env))
   \<and> (isLoginEnabled env (Some req) = Return False \<longrightarrow>
        isSecureModeEnabled env (Some req) = Return False)"
  by (auto simp add: isSecureModeEnabled_Some isLoginEnabled_Some containsAuthInfo_Some)

theorem isSecureModeEnabled_decision_witness:
  "isSecureModeEnabled (quietEnvironment (holder True False True)) (Some basicRequest) = Return True
   \<and> isSecureModeEnabled (quietEnvironment (holder True False True)) (Some anonymousRequest) = Return False
   \<and> isLoginEnabled (quietEnvironment (holder True False True)) (Some anonymousRequest) = Return False"
  using isSecureModeEnabled_decision [of "quietEnvironment (holder True False True)" basicRequest]
    isSecureModeEnabled_decision [of "quietEnvironment (holder True False True)" anonymousRequest]
  by (simp add: quietEnvironment_def exampleEnvironment_def holder_def basicRequest_def
      anonymousRequest_def containsAuthInfo_def header_eval)


section \<open>Credential extraction: claims C3, C4, C5 and C9\<close>

text \<open>
  Claim C3. For a request that carries a bearer token, extraction returns a descriptor with
  that token. When the request also carries an \<open>Impersonate-User\<close> header, the impersonated user
  is the value of that header, the impersonated groups are the values of the
  \<open>Impersonate-Group\<close> header in their order, and the impersonated extras map the suffix of
  every header name that starts with \<open>Impersonate-Extra-\<close> to all the values of that header
  (and hold nothing else). Without an \<open>Impersonate-User\<close> header all impersonation fields are
  empty. Header names are the keys of the request's header map, which are distinct.
\<close>

theorem extractAuthInfo_impersonation:
  assumes "distinct (map fst (Header req))"
    and "HeaderParameter req ''Authorization'' = ''Bearer '' @ token"
    and "token \<noteq> []"
  shows "\<exists>info. extractAuthInfo self (Some req) = Return ([], (Some info, None)) \<and>
           Token info = token \<and>
           (HeaderParameter req ''Impersonate-User'' \<noteq> [] \<longrightarrow>
              Impersonate info = HeaderParameter req ''Impersonate-User'' \<and>
              ImpersonateGroups info =
                (case map_of (Header req) ''Impersonate-Group'' of None \<Rightarrow> [] | Some vs \<Rightarrow> vs) \<and>
              (\<forall>name vs. map_of (Header req) name = Some vs \<and>
                         HasPrefix name ImpersonateUserExtraHeader \<longrightarrow>
                 map_of (ImpersonateUserExtra info)
                        (drop (length ImpersonateUserExtraHeader) name) = Some vs) \<and>
              (\<forall>k. map_of (ImpersonateUserExtra info) k =
                    map_of (Header req) (ImpersonateUserExtraHeader @ k))) \<and>
           (HeaderParameter req ''Impersonate-User'' = [] \<longrightarrow>
              Impersonate info = [] \<and> ImpersonateGroups info = [] \<and>
              ImpersonateUserExtra info = [])"
proof -
  have tok: "extractTokenFromHeader (HeaderParameter req ''Authorization'') = token"
    using assms(2) by (simp add: extractTokenFromHeader_eq HasPrefix_def)
  have extra: "map_of (fold extraStep (Header req) []) k =
                 map_of (Header req) (ImpersonateUserExtraHeader @ k)" for k
    using fold_extraStep [OF assms(1), of "[]" k] by (simp split: option.splits)
  have named: "map_of (fold extraStep (Header req) [])
                 (drop (length ImpersonateUserExtraHeader) name) = Some vs"
    if "map_of (Header req) name = Some vs" "HasPrefix name ImpersonateUserExtraHeader"
    for name vs
  proof -
    have "name = ImpersonateUserExtraHeader @ drop (length ImpersonateUserExtraHeader) name"
      using that(2) unfolding HasPrefix_def by (metis append_take_drop_id)
    then show ?thesis using extra that(1) by metis
  qed
  have groups: "impersonateGroups (Header req) =
                  (case map_of (Header req) ''Impersonate-Group'' of None \<Rightarrow> [] | Some vs \<Rightarrow> vs)"
    by (simp add: impersonateGroups_def split: option.splits)
  show ?thesis
    using extractAuthInfo_bearer [of req self] tok assms(3) extra named groups
    by auto
qed

theorem extractAuthInfo_impersonation_witness:
  "extractAuthInfo (exampleManager (Some exampleDecrypt)) (Some impersonatingRequest) =
     Return ([], (Some \<lparr>Token = ''abc'', Impersonate = ''alice'',
                       ImpersonateGroups = [''dev'', ''ops''],
                       ImpersonateUserExtra = [(''reason'', [''audit'', ''followup''])]\<rparr>, None))
   \<and> extractAuthInfo (exampleManager None) (Some bearerRequest) =
     Return ([], (Some \<lparr>Token = ''abc'', Impersonate = [], ImpersonateGroups = [],
                       ImpersonateUserExtra = []\<rparr>, None))"
  using extractAuthInfo_impersonation [of impersonatingRequest "''abc''" "exampleManager (Some exampleDecrypt)"]
    extractAuthInfo_impersonation [of bearerRequest "''abc''" "exampleManager None"]
  by (simp add: impersonatingRequest_def bearerRequest_def extractAuthInfo_def header_eval
      extractTokenFromHeader_def TrimPrefix_def impersonateGroups_def extraStep_def
      ImpersonateUserExtraHeader_def Let_def)

text \<open>
  Claim C4, as stated, fails for the header \<open>Authorization: Bearer \<close> with nothing after the
  prefix: the header starts with the prefix, yet no descriptor with the (empty) remainder
  is returned, and the decryption collaborator is consulted with the \<open>jweToken\<close> header.
\<close>

theorem extractAuthInfo_bare_bearer_counterexample:
  "HasPrefix (HeaderParameter bareBearerRequest ''Authorization'') ''Bearer ''
   \<and> TrimPrefix (HeaderParameter bareBearerRequest ''Authorization'') ''Bearer '' = []
   \<and> extractAuthInfo (exampleManager (Some exampleDecrypt)) (Some bareBearerRequest) =
       Return ([Decrypt ''opaque''],
               (Some \<lparr>Token = ''decrypted'', Impersonate = [], ImpersonateGroups = [],
                      ImpersonateUserExtra = []\<rparr>, None))"
  by (simp add: bareBearerRequest_def extractAuthInfo_def header_eval extractTokenFromHeader_def
      TrimPrefix_def call_def example_defs Let_def)

text \<open>
  Claim C4, amended. For every request whose \<open>Authorization\<close> header starts with \<open>Bearer \<close>
  and has a non-empty remainder after that prefix, extraction returns a descriptor whose
  token is exactly that remainder, and neither the \<open>jweToken\<close> header nor the decryption
  collaborator is consulted, even when the \<open>jweToken\<close> header is present: no event is
  recorded, and the result is the same for every collaborator and for every request that
  differs from this one in its \<open>jweToken\<close> header only.
\<close>

theorem extractAuthInfo_bearer_precedence:
  assumes "HasPrefix (HeaderParameter req ''Authorization'') ''Bearer ''"
    and "TrimPrefix (HeaderParameter req ''Authorization'') ''Bearer '' \<noteq> []"
    and "filter (\<lambda>e. fst e \<noteq> CanonicalMIMEHeaderKey JWETokenHeader) (Header req') =
         filter (\<lambda>e. fst e \<noteq> CanonicalMIMEHeaderKey JWETokenHeader) (Header req)"
  shows "\<exists>info. extractAuthInfo self (Some req) = Return ([], (Some info, None)) \<and>
           Token info = TrimPrefix (HeaderParameter req ''Authorization'') ''Bearer '' \<and>
           extractAuthInfo (self\<lparr>tokenManager := manager\<rparr>) (Some req') =
             extractAuthInfo self (Some req)"
proof -
  have tok: "extractTokenFromHeader (HeaderParameter req ''Authorization'') =
          TrimPrefix (HeaderParameter req ''Authorization'') ''Bearer ''"
    using assms(1) by (simp add: extractTokenFromHeader_def)
  then have ne: "extractTokenFromHeader (HeaderParameter req ''Authorization'') \<noteq> []"
    using assms(2) by simp
  then have ne': "extractTokenFromHeader (HeaderParameter req' ''Authorization'') \<noteq> []"
    using bearer_fields_without_jwe(1) [OF assms(3)] by simp
  show ?thesis
    using extractAuthInfo_bearer [OF ne, of self]
      extractAuthInfo_bearer [OF ne', of "self\<lparr>tokenManager := manager\<rparr>"]
      bearer_fields_without_jwe [OF assms(3)] tok
    by simp
qed

theorem extractAuthInfo_bearer_precedence_witness:
  "extractAuthInfo (exampleManager (Some exampleDecrypt))
     (Some (impersonatingRequest\<lparr>Header := [(''Authorization'', [''Bearer abc'']),
                (''Impersonate-User'', [''alice'']),
                (''Impersonate-Group'', [''dev'', ''ops'']),
                (''Impersonate-Extra-reason'', [''audit'', ''followup''])]\<rparr>)) =
     extractAuthInfo (exampleManager None) (Some impersonatingRequest)
   \<and> HeaderParameter impersonatingRequest JWETokenHeader = ''opaque''
   \<and> extractAuthInfo (exampleManager None) (Some impersonatingRequest) =
     Return ([], (Some \<lparr>Token = ''abc'', Impersonate = ''alice'',
                       ImpersonateGroups = [''dev'', ''ops''],
                       ImpersonateUserExtra = [(''reason'', [''audit'', ''followup''])]\<rparr>, None))"
  using extractAuthInfo_bearer_precedence
          [where req = impersonatingRequest and self = "exampleManager None"
             and manager = "Some exampleDecrypt"
             and req' = "impersonatingRequest\<lparr>Header := [(''Authorization'', [''Bearer abc'']),
                (''Impersonate-User'', [''alice'']),
                (''Impersonate-Group'', [''dev'', ''ops'']),
                (''Impersonate-Extra-reason'', [''audit'', ''followup''])]\<rparr>"]
  by (simp add: impersonatingRequest_def header_eval TrimPrefix_def example_defs
      extractAuthInfo_def extractTokenFromHeader_def Let_def impersonateGroups_def extraStep_def
      ImpersonateUserExtraHeader_def)

text \<open>
  Claim C5. For every request whose \<open>Authorization\<close> header has no \<open>Bearer \<close> prefix: when
  the \<open>jweToken\<close> header is absent or no decryption collaborator is configured, extraction
  fails with an Unauthorized error that carries the fixed login-required message; when the
  header is present and a collaborator is configured, the collaborator is consulted with it
  and its result, descriptor and error, is returned unchanged.
\<close>

theorem extractAuthInfo_without_bearer:
  assumes "\<not> HasPrefix (HeaderParameter req ''Authorization'') ''Bearer ''"
  shows "(HeaderParameter req JWETokenHeader = [] \<or> tokenManager self = None \<longrightarrow>
            extractAuthInfo self (Some req) =
              Return ([], (None, Some (StatusError Unauthorized MsgLoginUnauthorizedError))))
       \<and> (\<forall>manager. HeaderParameter req JWETokenHeader \<noteq> [] \<and> tokenManager self = Some manager \<longrightarrow>
            extractAuthInfo self (Some req) =
              Return ([Decrypt (HeaderParameter req JWETokenHeader)],
                      manager (HeaderParameter req JWETokenHeader)))"
proof -
  have "extractTokenFromHeader (HeaderParameter req ''Authorization'') = []"
    using assms by (simp add: extractTokenFromHeader_def)
  from unauthorized_or_decrypt [OF this, of self] show ?thesis
    by (auto split: option.splits)
qed

theorem extractAuthInfo_without_bearer_witness:
  "extractAuthInfo (exampleManager (Some exampleDecrypt)) (Some basicRequest) =
     Return ([], (None, Some (StatusError Unauthorized MsgLoginUnauthorizedError)))
   \<and> extractAuthInfo (exampleManager None) (Some opaqueRequest) =
     Return ([], (None, Some (StatusError Unauthorized MsgLoginUnauthorizedError)))
   \<and> extractAuthInfo (exampleManager (Some exampleDecrypt)) (Some opaqueRequest) =
     Return ([Decrypt ''opaque''], exampleDecrypt ''opaque'')"
  using extractAuthInfo_without_bearer [of basicRequest "exampleManager (Some exampleDecrypt)"]
    extractAuthInfo_without_bearer [of opaqueRequest "exampleManager None"]
    extractAuthInfo_without_bearer [of opaqueRequest "exampleManager (Some exampleDecrypt)"]
  by (simp add: basicRequest_def opaqueRequest_def header_eval exampleManager_def)

text \<open>
  Claim C9. Every descriptor that extraction produces from the headers themselves (without
  consulting the decryption collaborator) has a non-empty token. An \<open>Authorization\<close> header
  of exactly \<open>Bearer \<close> is no bearer credential: extraction goes on to the opaque-token path
  or fails with Unauthorized.
\<close>

theorem extractAuthInfo_token_nonempty:
  "(\<forall>info err. extractAuthInfo self (Some req) = Return ([], (Some info, err)) \<longrightarrow> Token info \<noteq> [])
   \<and> (HeaderParameter req ''Authorization'' = ''Bearer '' \<longrightarrow>
        extractAuthInfo self (Some req) =
          (case tokenManager self of
             Some manager \<Rightarrow>
               if HeaderParameter req JWETokenHeader \<noteq> []
               then Return ([Decrypt (HeaderParameter req JWETokenHeader)],
                            manager (HeaderParameter req JWETokenHeader))
               else Return ([], (None, Some (StatusError Unauthorized MsgLoginUnauthorizedError)))
           | None \<Rightarrow> Return ([], (None, Some (StatusError Unauthorized MsgLoginUnauthorizedError)))))"
proof (intro conjI allI impI)
  fix info err
  assume r: "extractAuthInfo self (Some req) = Return ([], (Some info, err))"
  show "Token info \<noteq> []"
  proof (cases "extractTokenFromHeader (HeaderParameter req ''Authorization'') = []")
    case True
    from unauthorized_or_decrypt [OF True, of self] r show ?thesis
      by (auto split: option.splits if_splits)
  next
    case False
    from extractAuthInfo_bearer [OF False, of self] r False show ?thesis by auto
  qed
next
  assume "HeaderParameter req ''Authorization'' = ''Bearer ''"
  then have "extractTokenFromHeader (HeaderParameter req ''Authorization'') = []"
    by (simp add: extractTokenFromHeader_def TrimPrefix_def HasPrefix_def)
  from unauthorized_or_decrypt [OF this, of self]
  show "extractAuthInfo self (Some req) =
          (case tokenManager self of
             Some manager \<Rightarrow>
               if HeaderParameter req JWETokenHeader \<noteq> []
               then Return ([Decrypt (HeaderParameter req JWETokenHeader)],
                            manager (HeaderParameter req JWETokenHeader))
               else Return ([], (None, Some (StatusError Unauthorized MsgLoginUnauthorizedError)))
           | None \<Rightarrow> Return ([], (None, Some (StatusError Unauthorized MsgLoginUnauthorizedError))))"
    by simp
qed

theorem extractAuthInfo_token_nonempty_witness:
  "extractAuthInfo (exampleManager None) (Some bearerRequest) =
     Return ([], (Some \<lparr>Token = ''abc'', Impersonate = [], ImpersonateGroups = [],
                       ImpersonateUserExtra = []\<rparr>, None))
   \<and> ''abc'' \<noteq> []
   \<and> HeaderParameter bareBearerRequest ''Authorization'' = ''Bearer ''
   \<and> extractAuthInfo (exampleManager None) (Some bareBearerRequest) =
       Return ([], (None, Some (StatusError Unauthorized MsgLoginUnauthorizedError)))"
  using extractAuthInfo_token_nonempty [of "exampleManager None" bearerRequest]
    extractAuthInfo_token_nonempty [of "exampleManager None" bareBearerRequest]
  by (simp add: bearerRequest_def bareBearerRequest_def extractAuthInfo_def header_eval
      extractTokenFromHeader_def TrimPrefix_def exampleManager_def Let_def)

section \<open>Authorization checks and nil requests: claims C2 and C6\<close>

text \<open>
  Claim C2. \<open>CanI\<close> returns a boolean for every request and access review, never an error.
  When extraction yields no descriptor while a certificate file and a key file are both
  configured, it returns false. Otherwise, when the client resolution fails, or the
  submission of the access review fails, the error is printed to the log and it returns
  false; and when both succeed it returns the \<open>Allowed\<close> verdict of the cluster's response.
\<close>

theorem CanI_verdict:
  "(case extractAuthInfo self (Some req) of
      Panic \<Rightarrow> False
    | Return (t, (info, e)) \<Rightarrow>
        (info = None \<and> GetCertFile (args_Holder env) \<noteq> [] \<and> GetKeyFile (args_Holder env) \<noteq> [] \<longrightarrow>
            CanI self env (Some req) ssar = Return (t, False))
      \<and> (\<not> (info = None \<and> GetCertFile (args_Holder env) \<noteq> [] \<and> GetKeyFile (args_Holder env) \<noteq> []) \<longrightarrow>
            (\<forall>t' err. Client self env (Some req) = Return (t', Inl err) \<longrightarrow>
               CanI self env (Some req) ssar = Return (t @ t' @ [Println err], False))
          \<and> (\<forall>t' client err.
               Client self env (Some req) = Return (t', Inr client) \<and>
               SelfSubjectAccessReviews_Create env client ssar = Inl err \<longrightarrow>
               CanI self env (Some req) ssar =
                 Return (t @ t' @ [CreateSelfSubjectAccessReview client ssar, Println err], False))
          \<and> (\<forall>t' client response.
               Client self env (Some req) = Return (t', Inr client) \<and>
               SelfSubjectAccessReviews_Create env client ssar = Inr response \<longrightarrow>
               CanI self env (Some req) ssar =
                 Return (t @ t' @ [CreateSelfSubjectAccessReview client ssar], Allowed response))))
   \<and> (\<exists>t verdict. CanI self env (Some req) ssar = Return (t, verdict))"
proof -
  obtain t info e where x: "extractAuthInfo self (Some req) = Return (t, (info, e))"
    using extractAuthInfo_returns by blast
  obtain t' r where c: "Client self env (Some req) = Return (t', r)"
    using Client_returns by blast
  have total: "\<exists>t verdict. CanI self env (Some req) ssar = Return (t, verdict)"
    using x c by (auto simp add: CanI_def split: sum.splits)
  show ?thesis
    using x total by (auto simp add: CanI_def)
qed

theorem CanI_verdict_witness:
  "CanI (exampleManager None) (quietEnvironment (holder True False True))
        (Some anonymousRequest) exampleReview = Return ([], False)
   \<and> CanI (exampleManager None) (quietEnvironment (holder False False True))
        (Some basicRequest) exampleReview =
       Return ([Println (StatusError Unauthorized MsgLoginUnauthorizedError)], False)
   \<and> returned (CanI (exampleManager None) (reviewEnvironment (Inl timeoutError))
        (Some bearerRequest) exampleReview) = Some False
   \<and> logged (CanI (exampleManager None) (reviewEnvironment (Inl timeoutError))
        (Some bearerRequest) exampleReview) = [timeoutError]
   \<and> returned (CanI (exampleManager None) (reviewEnvironment (Inr True))
        (Some bearerRequest) exampleReview) = Some True
   \<and> logged (CanI (exampleManager None) (reviewEnvironment (Inr True))
        (Some bearerRequest) exampleReview) = []"
  using CanI_verdict [where self = "exampleManager None" and req = anonymousRequest
          and env = "quietEnvironment (holder True False True)" and ssar = exampleReview]
    CanI_verdict [where self = "exampleManager None" and req = basicRequest
          and env = "quietEnvironment (holder False False True)" and ssar = exampleReview]
    CanI_verdict [where self = "exampleManager None" and req = bearerRequest
          and env = "reviewEnvironment (Inl timeoutError)" and ssar = exampleReview]
    CanI_verdict [where self = "exampleManager None" and req = bearerRequest
          and env = "reviewEnvironment (Inr True)" and ssar = exampleReview]
  by (simp add: run_defs header_eval example_defs reviewEnvironment_def anonymousRequest_def
      basicRequest_def bearerRequest_def exampleReview_def)

text \<open>
  Claim C6. Every public operation that takes a request is to fail with a bad request
  condition on a nil request, before any other work. \<open>Client\<close>, \<open>APIExtensionsClient\<close>,
  \<open>PluginClient\<close> and \<open>Config\<close> check the request and do so (no collaborator is called and
  nothing is logged), and \<open>VerberClient\<close> does through its first client resolution. \<open>CanI\<close>
  and \<open>ClientCmdConfig\<close> lack the check of their siblings: both begin with the extraction,
  which reads a header from the nil request, and the call ends in a panic.
\<close>

theorem nil_request:
  "Client self env None = Return ([], Inl (StatusError BadRequest ''request can not be nil''))
   \<and> APIExtensionsClient self env None =
       Return ([], Inl (StatusError BadRequest ''request can not be nil!''))
   \<and> PluginClient self env None =
       Return ([], Inl (StatusError BadRequest ''request can not be nil!''))
   \<and> Config self env None = Return ([], Inl (StatusError BadRequest ''request can not be nil''))
   \<and> VerberClient self env None config =
       Return ([], Inl (StatusError BadRequest ''request can not be nil''))
   \<and> CanI self env None ssar = Panic
   \<and> ClientCmdConfig self env None = Panic"
  by (simp add: Client_def APIExtensionsClient_def PluginClient_def Config_def VerberClient_def
      CanI_def ClientCmdConfig_def extractAuthInfo_def fail_def NewBadRequest_def bind_simps
      checked_simps)

section \<open>User names and the access probe: claims C7 and C8\<close>






text \<open>
  Claim C8. Once the probe has built its client: when the server-version call fails with a
  Forbidden error, the user name derived from the error text is returned together with the
  error; when that call succeeds and the token review fails with a Forbidden error, the
  derived user name is returned with no error; any other error of either call is returned
  with an empty user name.
\<close>

theorem HasAccess_forbidden:
  assumes "buildConfigFromFlags self env (apiserverHost self) (kubeConfigPath self) = (t, Inr cfg)"
    and "clientcmd_ClientConfig env (buildCmdConfig (Some authInfo) cfg) = Inr cfg'"
    and "kubernetes_NewForConfig env cfg' = Inr client"
  shows "(\<forall>err. ServerVersion env client = Some err \<longrightarrow>
            snd (HasAccess self env authInfo) =
              (if IsForbidden err then (getUsernameFromError err, Some err) else ([], Some err)))
       \<and> (ServerVersion env client = None \<longrightarrow>
            (\<forall>err. TokenReviews_Create env client (Token authInfo) = Inl err \<longrightarrow>
               snd (HasAccess self env authInfo) =
                 (if IsForbidden err then (getUsernameFromError err, None) else ([], Some err))))"
  using assms by (simp add: HasAccess_def Let_def)

theorem HasAccess_forbidden_witness:
  "snd (HasAccess (exampleManager None) (probeEnvironment (Some forbiddenError) (Inr ''alice''))
          exampleAuthInfo) = (''alice'', Some forbiddenError)
   \<and> snd (HasAccess (exampleManager None) (probeEnvironment (Some timeoutError) (Inr ''alice''))
          exampleAuthInfo) = ([], Some timeoutError)
   \<and> snd (HasAccess (exampleManager None) (probeEnvironment None (Inl forbiddenError))
          exampleAuthInfo) = (''alice'', None)
   \<and> snd (HasAccess (exampleManager None) (probeEnvironment None (Inl timeoutError))
          exampleAuthInfo) = ([], Some timeoutError)"
  using HasAccess_forbidden [of "exampleManager None"
          "probeEnvironment (Some forbiddenError) (Inr ''alice'')"
          "[Load [] ''https://cluster.example:6443'']"
          "exampleConfig\<lparr>Host := ''https://cluster.example:6443''\<rparr>" exampleAuthInfo
          exampleConfig "kubernetes_Clientset exampleConfig"]
    HasAccess_forbidden [of "exampleManager None"
          "probeEnvironment (Some timeoutError) (Inr ''alice'')"
          "[Load [] ''https://cluster.example:6443'']"
          "exampleConfig\<lparr>Host := ''https://cluster.example:6443''\<rparr>" exampleAuthInfo
          exampleConfig "kubernetes_Clientset exampleConfig"]
    HasAccess_forbidden [of "exampleManager None"
          "probeEnvironment None (Inl forbiddenError)"
          "[Load [] ''https://cluster.example:6443'']"
          "exampleConfig\<lparr>Host := ''https://cluster.example:6443''\<rparr>" exampleAuthInfo
          exampleConfig "kubernetes_Clientset exampleConfig"]
    HasAccess_forbidden [of "exampleManager None"
          "probeEnvironment None (Inl timeoutError)"
          "[Load [] ''https://cluster.example:6443'']"
          "exampleConfig\<lparr>Host := ''https://cluster.example:6443''\<rparr>" exampleAuthInfo
          exampleConfig "kubernetes_Clientset exampleConfig"]
  by (simp add: buildConfigFromFlags_def call_def example_defs probeEnvironment_def
      exampleAuthInfo_def IsForbidden_def getUsernameFromError_forbiddenError)
     (simp add: forbiddenError_def timeoutError_def)

section \<open>Credential headers that are no credential: claim C10\<close>

text \<open>
  Claim C10. A request whose \<open>Authorization\<close> header is non-empty without the \<open>Bearer \<close>
  prefix, and which has no \<open>jweToken\<close> header, passes the existence check although
  extraction fails with Unauthorized. With login enabled and skip-login allowed it is
  therefore handled in secure mode, and every resolve operation fails with that error
  instead of returning the insecure client or configuration.
\<close>

theorem credential_header_without_credential:
  assumes "HeaderParameter req ''Authorization'' \<noteq> []"
    and "\<not> HasPrefix (HeaderParameter req ''Authorization'') ''Bearer ''"
    and "HeaderParameter req JWETokenHeader = []"
  shows "containsAuthInfo (Some req) = Return True
       \<and> extractAuthInfo self (Some req) =
           Return ([], (None, Some (StatusError Unauthorized MsgLoginUnauthorizedError)))
       \<and> (isLoginEnabled env (Some req) = Return True \<and> GetEnableSkipLogin (args_Holder env) \<longrightarrow>
            isSecureModeEnabled env (Some req) = Return True
          \<and> Client self env (Some req) =
              Return ([], Inl (StatusError Unauthorized MsgLoginUnauthorizedError))
          \<and> APIExtensionsClient self env (Some req) =
              Return ([], Inl (StatusError Unauthorized MsgLoginUnauthorizedError))
          \<and> PluginClient self env (Some req) =
              Return ([], Inl (StatusError Unauthorized MsgLoginUnauthorizedError))
          \<and> Config self env (Some req) =
              Return ([], Inl (StatusError Unauthorized MsgLoginUnauthorizedError)))"
proof -
  have "extractTokenFromHeader (HeaderParameter req ''Authorization'') = []"
    using assms(2) by (simp add: extractTokenFromHeader_def)
  from unauthorized_or_decrypt [OF this, of self]
  have x: "extractAuthInfo self (Some req) =
           Return ([], (None, Some (StatusError Unauthorized MsgLoginUnauthorizedError)))"
    using assms(3) by (simp split: option.splits)
  then have c: "ClientCmdConfig self env (Some req) =
           Return ([], Inl (StatusError Unauthorized MsgLoginUnauthorizedError))"
    by (simp add: ClientCmdConfig_def checked_simps bind_simps)
  then have s: "secureConfig self env (Some req) =
           Return ([], Inl (StatusError Unauthorized MsgLoginUnauthorizedError))"
    by (simp add: secureConfig_def bind_simps)
  show ?thesis
    using assms(1) x s
    by (simp add: containsAuthInfo_Some isSecureModeEnabled_Some isLoginEnabled_Some Client_def
        APIExtensionsClient_def PluginClient_def Config_def secureClient_def
        secureAPIExtensionsClient_def securePluginClient_def bind_simps obind_simps)
qed


theorem credential_header_without_credential_witness:
  "containsAuthInfo (Some basicRequest) = Return True
   \<and> extractAuthInfo (exampleManager (Some exampleDecrypt)) (Some basicRequest) =
       Return ([], (None, Some (StatusError Unauthorized MsgLoginUnauthorizedError)))
   \<and> isSecureModeEnabled (quietEnvironment (holder False False True)) (Some basicRequest) =
       Return True
   \<and> Client (exampleManager (Some exampleDecrypt)) (quietEnvironment (holder False False True))
        (Some basicRequest) =
       Return ([], Inl (StatusError Unauthorized MsgLoginUnauthorizedError))
   \<and> Config (exampleManager (Some exampleDecrypt)) (quietEnvironment (holder False False True))
        (Some basicRequest) =
       Return ([], Inl (StatusError Unauthorized MsgLoginUnauthorizedError))"
  using credential_header_without_credential
          [of basicRequest "exampleManager (Some exampleDecrypt)"
              "quietEnvironment (holder False False True)"]
  by (simp add: header_eval basicRequest_def isLoginEnabled_Some example_defs)

end
